theory Spec2Isabelle
  imports Complex_Main "HOL-Library.Word" "HOL-Library.Multiset"
begin

section \<open>Values, errors and string helpers\<close>

text \<open>
  The model follows \<^verbatim>\<open>src/src/commands.py\<close>. Python exceptions that the source does
  not catch are values of \<open>error\<close>; a function that may raise returns \<open>error + 'a\<close>.
\<close>

datatype error = IndexError | OverflowError

text \<open>Python's \<^verbatim>\<open>str(n)\<close> of an integer: decimal digits, with a minus sign when negative.\<close>

fun digits :: "nat \<Rightarrow> string" where
  "digits n =
     (if n < 10 then [''0123456789'' ! n]
      else digits (n div 10) @ [''0123456789'' ! (n mod 10)])"

declare digits.simps [simp del]

definition str_int :: "int \<Rightarrow> string" where
  "str_int i = (if i < 0 then CHR ''-'' # digits (nat (- i)) else digits (nat i))"


section \<open>readable\_size\<close>

text \<open>
  The source computes with IEEE doubles:
  \<^verbatim>\<open>i = int(math.floor(math.log(sbytes, 1024)))\<close>, \<^verbatim>\<open>p = math.pow(1024, i)\<close>,
  \<^verbatim>\<open>"{} {}".format(round(sbytes / p, 3), units[i])\<close>.
  The model computes the same expressions in exact arithmetic over \<open>rat\<close>: the logarithm
  is the exact \<open>\<lfloor>log\<^bsub>1024\<^esub> sbytes\<rfloor>\<close>, the quotient is exact, \<open>round3\<close> is rounding to three
  decimals with ties to even, and \<open>float_str\<close> is the shortest decimal rendering of such
  a value, which always keeps one digit after the point. Double rounding of
  \<^verbatim>\<open>math.log\<close> and of the int-to-float conversion is not represented; the two overflow
  faults of \<^verbatim>\<open>math.pow\<close> and of the conversion are.
\<close>

definition units :: "string list" where
  "units = [''B'', ''KiB'', ''MiB'', ''GiB'', ''TiB'', ''PiB'', ''EiB'', ''ZiB'', ''YiB'']"

fun floor_log_1024 :: "nat \<Rightarrow> nat" where
  "floor_log_1024 n = (if n < 1024 then 0 else Suc (floor_log_1024 (n div 1024)))"

declare floor_log_1024.simps [simp del]

definition round3 :: "rat \<Rightarrow> rat" where
  "round3 x =
     (let m = \<lfloor>x * 1000\<rfloor>; r = x * 1000 - of_int m
      in of_int (if r < 1 / 2 then m
                 else if 1 / 2 < r then m + 1
                 else if even m then m else m + 1) / 1000)"

definition float_str :: "rat \<Rightarrow> string" where
  "float_str x =
     (let m = nat \<lfloor>x * 1000\<rfloor>;
          frac = [''0123456789'' ! (m mod 1000 div 100),
                  ''0123456789'' ! (m mod 100 div 10),
                  ''0123456789'' ! (m mod 10)];
          trimmed = rev (dropWhile (\<lambda>c. c = CHR ''0'') (rev frac))
      in digits (m div 1000) @ ''.'' @ (if trimmed = [] then ''0'' else trimmed))"

definition readable_size :: "int \<Rightarrow> error + string" where
  "readable_size sbytes =
     (if sbytes \<le> 0 then Inr ''0 B''
      else let i = floor_log_1024 (nat sbytes)
        in if 103 \<le> i then Inl OverflowError
           else if 2 ^ 1024 - 2 ^ 970 \<le> sbytes then Inl OverflowError
           else if length units \<le> i then Inl IndexError
           else Inr (float_str (round3 (of_int sbytes / 1024 ^ i)) @ '' '' @ units ! i))"

section \<open>Collaborators outside the repository\<close>

text \<open>
  The operating system, the account databases and \<^verbatim>\<open>utils.md5sum\<close> are not part of
  \<^verbatim>\<open>commands.py\<close>; they are the fields of a \<open>host\<close>. A probe that raises returns
  \<open>Inl msg\<close>, where \<open>msg\<close> is the text of the exception; \<^verbatim>\<open>getpwuid\<close> and
  \<^verbatim>\<open>getgrgid\<close> return \<open>None\<close> where they raise \<^verbatim>\<open>KeyError\<close>. The second
  argument of \<open>md5sum\<close> is \<^verbatim>\<open>first_block_only\<close>. A file size is the 64-bit
  \<^verbatim>\<open>off_t\<close> of the platform, read as a signed number.
\<close>

type_synonym path = string

type_synonym digest = string

record stat_result =
  st_mode :: nat
  st_ino :: nat
  st_uid :: nat
  st_gid :: nat
  st_size :: "64 word"
  st_mtime :: int

record host =
  expanduser :: "path \<Rightarrow> path"
  abspath :: "path \<Rightarrow> path"
  walk :: "path \<Rightarrow> (path \<times> path list \<times> path list) list"
  islink :: "path \<Rightarrow> bool"
  getsize :: "path \<Rightarrow> string + 64 word"
  md5sum :: "path \<Rightarrow> bool \<Rightarrow> string + digest"
  os_stat :: "path \<Rightarrow> string + stat_result"
  getpwuid :: "nat \<Rightarrow> string option"
  getgrgid :: "nat \<Rightarrow> string option"
  filemode :: "nat \<Rightarrow> string"
  mtime_str :: "int \<Rightarrow> string"

text \<open>
  What the program does to the outside is a trace of events, oldest first: a line printed
  (\<open>Stdout\<close>), a warning passed to \<^verbatim>\<open>err\<close> (\<open>Stderr\<close>), a call of \<^verbatim>\<open>md5sum\<close>, a query
  of the user or group database. \<open>Report file dups\<close> is a ghost event that follows each
  printed line and keeps the representative and the duplicates of that line apart, since
  a path may itself contain a tab or a pipe character.
\<close>

datatype event =
    Stdout string
  | Stderr string
  | Md5sum path bool
  | Getpwuid nat
  | Getgrgid nat
  | Report path "path list"

fun groups :: "event list \<Rightarrow> (path \<times> path list) list" where
  "groups [] = []"
| "groups (Report file dups # tr) = (file, dups) # groups tr"
| "groups (_ # tr) = groups tr"

fun stdout :: "event list \<Rightarrow> string list" where
  "stdout [] = []"
| "stdout (Stdout line # tr) = line # stdout tr"
| "stdout (_ # tr) = stdout tr"

definition warning :: "path \<Rightarrow> string \<Rightarrow> string" where
  "warning file e =
     ''WARNING: Failed to get info on '' @ [CHR 0x22] @ file @ [CHR 0x22] @
     '' due to '' @ [CHR 0x22] @ e @ [CHR 0x22] @ '' error!''"

section \<open>Identity resolution: \_name and name\<close>

text \<open>
  A resolved name is a Python value: the \<^verbatim>\<open>str\<close> found in the database, or the
  \<^verbatim>\<open>int\<close> id itself when the database has no entry (\<^verbatim>\<open>name = uid\<close>).
  \<^verbatim>\<open>uid_type\<close> is one of the two strings \<^verbatim>\<open>'user'\<close> and \<^verbatim>\<open>'group'\<close>.
  \<open>priv_name\<close> is the source's \<^verbatim>\<open>_name\<close>.
\<close>

datatype pyval = PStr string | PInt int

fun py_str :: "pyval \<Rightarrow> string" where
  "py_str (PStr s) = s"
| "py_str (PInt i) = str_int i"

datatype uid_type = User | Group

definition priv_name :: "host \<Rightarrow> nat \<Rightarrow> uid_type \<Rightarrow> event list \<Rightarrow> pyval \<times> event list" where
  "priv_name h uid t tr =
     (case t of
        User \<Rightarrow>
          (case getpwuid h uid of
             Some pw_name \<Rightarrow> (PStr pw_name, tr @ [Getpwuid uid])
           | None \<Rightarrow> (PInt (int uid), tr @ [Getpwuid uid]))
      | Group \<Rightarrow>
          (case getgrgid h uid of
             Some gr_name \<Rightarrow> (PStr gr_name, tr @ [Getgrgid uid])
           | None \<Rightarrow> (PInt (int uid), tr @ [Getgrgid uid])))"

definition name ::
  "host \<Rightarrow> nat \<Rightarrow> uid_type \<Rightarrow> (nat \<rightharpoonup> pyval) \<Rightarrow> event list
     \<Rightarrow> pyval \<times> (nat \<rightharpoonup> pyval) \<times> event list" where
  "name h uid t uid_records tr =
     (case uid_records uid of
        Some n \<Rightarrow> (n, uid_records, tr)
      | None \<Rightarrow>
          (case priv_name h uid t tr of
             (n, tr') \<Rightarrow> (n, uid_records(uid \<mapsto> n), tr')))"

section \<open>file\_stats\<close>

definition file_stats ::
  "host \<Rightarrow> path \<Rightarrow> (nat \<rightharpoonup> pyval) \<Rightarrow> event list
     \<Rightarrow> error + (string list \<times> (nat \<rightharpoonup> pyval) \<times> event list)" where
  "file_stats h file users tr =
     (case os_stat h file of
        Inl e \<Rightarrow> Inr ([], users, tr @ [Stderr (warning file e)])
      | Inr stat_res \<Rightarrow>
          (let permissions = filemode h (st_mode stat_res);
               inode = st_ino stat_res
           in case name h (st_uid stat_res) User users tr of
             (owner, users1, tr1) \<Rightarrow>
           case name h (st_gid stat_res) Group users1 tr1 of
             (grp, users2, tr2) \<Rightarrow>
           let mdate = mtime_str h (st_mtime stat_res);
               bsize = sint (st_size stat_res)
           in case readable_size bsize of
                Inl e \<Rightarrow> Inl e
              | Inr hsize \<Rightarrow>
                  Inr (map py_str [PInt (int inode), PStr permissions, owner, grp,
                                   PInt bsize, PStr hsize, PStr mdate],
                       users2, tr2)))"

section \<open>traversed\<close>




section \<open>The duplicate pipeline: \_ls\<close>

text \<open>
  A Python \<^verbatim>\<open>dict\<close> of lists is iterated in the order in which its keys were first
  inserted, so a bucket table is an association list in that order. \<open>bucket_add\<close> is
  \<^verbatim>\<open>if k not in d: d[k] = []\<close> followed by \<^verbatim>\<open>d[k].append(file)\<close>.
\<close>

fun bucket_add :: "'k \<Rightarrow> path \<Rightarrow> ('k \<times> path list) list \<Rightarrow> ('k \<times> path list) list" where
  "bucket_add k file [] = [(k, [file])]"
| "bucket_add k file ((k', files) # d) =
     (if k = k' then (k', files @ [file]) # d else (k', files) # bucket_add k file d)"

record ls_state =
  users :: "nat \<rightharpoonup> pyval"
  sizes :: "(64 word \<times> path list) list"
  mini_hashes :: "((digest \<times> 64 word) \<times> path list) list"
  full_hashes :: "((digest \<times> 64 word) \<times> path list) list"
  trace :: "event list"









text \<open>
  \<open>priv_ls\<close> is the source's \<^verbatim>\<open>_ls(path, md5)\<close>. The source never reads \<^verbatim>\<open>md5\<close>.
  The model returns the final values of the local tables together with the trace.
\<close>

definition init_state :: ls_state where
  "init_state = \<lparr>users = Map.empty, sizes = [], mini_hashes = [], full_hashes = [], trace = []\<rparr>"


section \<open>Example hosts\<close>

text \<open>Concrete hosts on which the theorems below are evaluated.\<close>

definition example_stat :: stat_result where
  "example_stat =
     \<lparr>st_mode = 33188, st_ino = 7, st_uid = 1000, st_gid = 1000, st_size = 5, st_mtime = 0\<rparr>"

definition example_host :: host where
  "example_host =
     \<lparr>expanduser = (\<lambda>p. p), abspath = (\<lambda>p. p),
      walk = (\<lambda>p. [(p, [], [''a''])]),
      islink = (\<lambda>p. False),
      getsize = (\<lambda>p. Inr 5),
      md5sum = (\<lambda>p first. Inr ''d1''),
      os_stat = (\<lambda>p. if p = ''/d/a'' then Inr example_stat else Inl ''ENOENT''),
      getpwuid = [1000 \<mapsto> ''alice''],
      getgrgid = [1000 \<mapsto> ''staff''],
      filemode = (\<lambda>m. ''-rw-r--r--''),
      mtime_str = (\<lambda>t. ''1970-01-01-00:00'')\<rparr>"

section \<open>Observations on tables and traces\<close>


definition singles :: "('k \<times> path list) list \<Rightarrow> path list list" where
  "singles d = map snd (filter (\<lambda>(k, files). length files < 2) d)"

definition candidates :: "('k \<times> path list) list \<Rightarrow> path list" where
  "candidates d = concat (map snd (filter (\<lambda>(k, files). \<not> length files < 2) d))"

definition add_all ::
  "(path \<Rightarrow> 'k option) \<Rightarrow> path list \<Rightarrow> ('k \<times> path list) list \<Rightarrow> ('k \<times> path list) list" where
  "add_all kf xs d = fold (\<lambda>x d. case kf x of None \<Rightarrow> d | Some k \<Rightarrow> bucket_add k x d) xs d"

fun hashed :: "event list \<Rightarrow> (path \<times> bool) list" where
  "hashed [] = []"
| "hashed (Md5sum file first # tr) = (file, first) # hashed tr"
| "hashed (_ # tr) = hashed tr"

fun stderr :: "event list \<Rightarrow> string list" where
  "stderr [] = []"
| "stderr (Stderr line # tr) = line # stderr tr"
| "stderr (_ # tr) = stderr tr"

definition size_key :: "host \<Rightarrow> path \<Rightarrow> 64 word option" where
  "size_key h file = (case getsize h file of Inr filesize \<Rightarrow> Some filesize | Inl e \<Rightarrow> None)"



definition quiet :: "event list \<Rightarrow> bool" where
  "quiet ev \<longleftrightarrow> groups ev = [] \<and> stdout ev = [] \<and> hashed ev = [] \<and> stderr ev = []"

definition probe_ok :: "host \<Rightarrow> path \<Rightarrow> bool" where
  "probe_ok h file = (case os_stat h file of Inl e \<Rightarrow> False | Inr st \<Rightarrow> True)"

definition step_key :: "host \<Rightarrow> bool \<Rightarrow> 64 word \<Rightarrow> path \<Rightarrow> (digest \<times> 64 word) option" where
  "step_key h first fsize file =
     (case md5sum h file first of Inl e \<Rightarrow> None | Inr d \<Rightarrow> Some (d, fsize))"

definition hash_warnings :: "host \<Rightarrow> bool \<Rightarrow> path list \<Rightarrow> string list" where
  "hash_warnings h first files =
     concat (map (\<lambda>file. case md5sum h file first of
                            Inl e \<Rightarrow> [warning file e] | Inr d \<Rightarrow> []) files)"


definition reported :: "host \<Rightarrow> path list list \<Rightarrow> (path \<times> path list) list" where
  "reported h bs = map (\<lambda>b. (hd b, tl b)) (filter (\<lambda>b. probe_ok h (hd b)) bs)"

definition probe_warnings :: "host \<Rightarrow> path list list \<Rightarrow> string list" where
  "probe_warnings h bs =
     concat (map (\<lambda>b. case os_stat h (hd b) of
                         Inl e \<Rightarrow> [warning (hd b) e] | Inr st \<Rightarrow> []) bs)"

definition hash_table ::
  "host \<Rightarrow> bool \<Rightarrow> ('k \<Rightarrow> 64 word) \<Rightarrow> ('k \<times> path list) list
     \<Rightarrow> ((digest \<times> 64 word) \<times> path list) list \<Rightarrow> ((digest \<times> 64 word) \<times> path list) list" where
  "hash_table h first size_of items d =
     fold (\<lambda>(k, b) d. if length b < 2 then d else add_all (step_key h first (size_of k)) b d)
          items d"



















section \<open>Properties of readable\_size\<close>








text \<open>
  Claim C7, as the code has it: \<open>readable_size\<close> maps \<open>0\<close> to \<open>0 B\<close>, \<open>1024\<close> to
  \<open>1.0 KiB\<close> (a Python float always renders with a digit after the point), \<open>1536\<close> to
  \<open>1.5 KiB\<close>, and every zero or negative input to \<open>0 B\<close> without a fault.
\<close>

theorem readable_size_examples:
  "readable_size 0 = Inr ''0 B'' \<and>
   readable_size 1024 = Inr ''1.0 KiB'' \<and>
   readable_size 1536 = Inr ''1.5 KiB'' \<and>
   (sbytes \<le> 0 \<longrightarrow> readable_size sbytes = Inr ''0 B'')"
  by (simp add: readable_size_def floor_log_1024.simps units_def round3_def float_str_def
      digits.simps)

theorem readable_size_examples_witness:
  "(- 7 :: int) \<le> 0 \<and> readable_size (- 7) = Inr ''0 B''"
  using readable_size_examples [of "- 7"] by simp

text \<open>The rendering \<open>1 KiB\<close> that the claim gives for \<open>1024\<close> is not what is returned.\<close>

theorem readable_size_1024_counterexample:
  "readable_size 1024 \<noteq> Inr ''1 KiB''"
  by (simp add: readable_size_def floor_log_1024.simps units_def round3_def float_str_def
      digits.simps)




section \<open>Properties of name and file\_stats\<close>

lemma name_cases:
  "name h uid t recs tr =
     (case recs uid of
        Some n \<Rightarrow> (n, recs, tr)
      | None \<Rightarrow>
          (let v = (case (case t of User \<Rightarrow> getpwuid h uid | Group \<Rightarrow> getgrgid h uid) of
                      Some nm \<Rightarrow> PStr nm | None \<Rightarrow> PInt (int uid))
           in (v, recs(uid \<mapsto> v), tr @ [case t of User \<Rightarrow> Getpwuid uid | Group \<Rightarrow> Getgrgid uid])))"
  by (simp add: name_def priv_name_def Let_def split: option.splits uid_type.splits)

text \<open>
  Claim C5, as the code has it: for an id that is not yet in the lookup table, \<open>name\<close>
  queries the database once, returns the database's name or, for an id the database does
  not know, the id itself as an integer (it becomes a string only in \<open>file_stats\<close>), and
  stores what it returned under the id in both cases alike; a second resolution of the
  same id returns the stored value and leaves the trace as it is, so it queries nothing.
\<close>

theorem name_caches_resolution:
  assumes "uid_records uid = None"
  shows "case name h uid t uid_records tr of
           (n, records', tr') \<Rightarrow>
             n = (case (case t of User \<Rightarrow> getpwuid h uid | Group \<Rightarrow> getgrgid h uid) of
                    Some nm \<Rightarrow> PStr nm | None \<Rightarrow> PInt (int uid)) \<and>
             records' = uid_records(uid \<mapsto> n) \<and>
             tr' = tr @ [case t of User \<Rightarrow> Getpwuid uid | Group \<Rightarrow> Getgrgid uid] \<and>
             name h uid t records' tr' = (n, records', tr')"
  using assms by (simp add: name_cases Let_def)

theorem name_caches_resolution_witness:
  "(Map.empty :: nat \<rightharpoonup> pyval) 99999 = None \<and>
   (case name example_host 99999 User Map.empty [] of
      (n, records', tr') \<Rightarrow>
        n = PInt 99999 \<and> records' 99999 = Some (PInt 99999) \<and> tr' = [Getpwuid 99999] \<and>
        name example_host 99999 User records' tr' = (n, records', tr'))"
  using name_caches_resolution [of Map.empty 99999 example_host User "[]"]
  by (simp add: example_host_def Let_def split: prod.splits)

text \<open>For the unknown id \<open>99999\<close> the value returned is not the string \<open>99999\<close>.\<close>

theorem name_unknown_counterexample:
  "getpwuid example_host 99999 = None \<and>
   fst (name example_host 99999 User Map.empty []) \<noteq> PStr ''99999''"
  by (simp add: name_cases example_host_def Let_def)





text \<open>
  Claim C6 at a file whose owner and group are both numbered \<open>1000\<close>, in a host whose
  user \<open>1000\<close> is \<open>alice\<close> and whose group \<open>1000\<close> is \<open>staff\<close>: the group field is
  \<open>alice\<close>, taken from the shared lookup table, and the group database is not queried.
\<close>

theorem file_stats_collision:
  "getgrgid example_host 1000 = Some ''staff'' \<and>
   file_stats example_host ''/d/a'' Map.empty [] =
     Inr ([''7'', ''-rw-r--r--'', ''alice'', ''alice'', ''5'', ''5.0 B'', ''1970-01-01-00:00''],
          [1000 \<mapsto> PStr ''alice''], [Getpwuid 1000])"
  by (simp add: file_stats_def example_host_def example_stat_def name_cases Let_def readable_size_def
      floor_log_1024.simps units_def round3_def float_str_def digits.simps str_int_def)

section \<open>Bucket tables\<close>

subsection \<open>bucket\_add\<close>







subsection \<open>add\_all\<close>

lemma add_all_Nil [simp]: "add_all kf [] d = d"
  by (simp add: add_all_def)













section \<open>Traces and reports\<close>

subsection \<open>Projections of a trace\<close>

lemma groups_append [simp]: "groups (a @ b) = groups a @ groups b"
  by (induction a rule: groups.induct) simp_all

lemma stdout_append [simp]: "stdout (a @ b) = stdout a @ stdout b"
  by (induction a rule: stdout.induct) simp_all

lemma hashed_append [simp]: "hashed (a @ b) = hashed a @ hashed b"
  by (induction a rule: hashed.induct) simp_all

lemma stderr_append [simp]: "stderr (a @ b) = stderr a @ stderr b"
  by (induction a rule: stderr.induct) simp_all


lemma quiet_query [simp]: "quiet [Getpwuid u]" "quiet [Getgrgid u]"
  by (simp_all add: quiet_def)


subsection \<open>What name, file\_stats and report add to the trace\<close>












section \<open>The loops of the pipeline\<close>

subsection \<open>Stage 1: the size loop\<close>



subsection \<open>The hashing loops over one bucket\<close>





lemma hash_warnings_append [simp]:
  "hash_warnings h first (xs @ ys) = hash_warnings h first xs @ hash_warnings h first ys"
  by (simp add: hash_warnings_def)



subsection \<open>singles and candidates\<close>

lemma singles_Nil [simp]: "singles [] = []"
  by (simp add: singles_def)

lemma candidates_Nil [simp]: "candidates [] = []"
  by (simp add: candidates_def)



lemma reported_Nil [simp]: "reported h [] = []"
  by (simp add: reported_def)


lemma reported_append [simp]: "reported h (xs @ ys) = reported h xs @ reported h ys"
  by (simp add: reported_def)

lemma probe_warnings_Nil [simp]: "probe_warnings h [] = []"
  by (simp add: probe_warnings_def)


lemma hash_table_Nil [simp]: "hash_table h first size_of [] d = d"
  by (simp add: hash_table_def)



subsection \<open>An induction rule for each loop\<close>







subsection \<open>What the mini-hash loop leaves behind\<close>






subsection \<open>What the full-hash loop leaves behind\<close>







subsection \<open>What the reporting loop leaves behind\<close>






subsection \<open>The tables of a run\<close>








lemma init_state_simps [simp]:
  "sizes init_state = []" "mini_hashes init_state = []" "full_hashes init_state = []"
  "trace init_state = []"
  by (simp_all add: init_state_def)


section \<open>The md5 toggle\<close>






subsection \<open>Members of a built table\<close>












subsection \<open>Which paths reach which stage\<close>












subsection \<open>The final buckets\<close>


















section \<open>Failures are local\<close>

subsection \<open>Keys and probes\<close>

lemma size_key_None: "size_key h f = None \<longleftrightarrow> (\<exists>e. getsize h f = Inl e)"
  by (cases "getsize h f") (simp_all add: size_key_def)













section \<open>Every surviving path is in one group\<close>

subsection \<open>Groups and final buckets\<close>







section \<open>Buckets of one member are final\<close>

subsection \<open>Buckets of one member\<close>











section \<open>Groups follow the traversal order\<close>

subsection \<open>Final buckets in traversal order\<close>












end
